theory Spec2Isabelle
  imports Complex_Main
begin

section \<open>Numeric values\<close>

text \<open>
  The program computes with numpy/pandas \<^verbatim>\<open>float64\<close> values. A finite value is
  modelled by the real number it denotes and arithmetic on finite values is exact
  (rounding, the finite range of a double and the sign of zero are not modelled). The
  three special values are kept, because the program produces them where a division
  by zero or an empty sample occurs: \<open>PInf\<close> and \<open>NInf\<close> are the infinities, \<open>NaN\<close> is
  pandas' missing value. No arithmetic operation of numpy raises: it returns one of
  the special values (and at most prints a warning).
\<close>

datatype fnum = Fin real | PInf | NInf | NaN

fun fneg :: "fnum \<Rightarrow> fnum" where
  "fneg (Fin a) = Fin (- a)"
| "fneg PInf = NInf"
| "fneg NInf = PInf"
| "fneg NaN = NaN"

fun fadd :: "fnum \<Rightarrow> fnum \<Rightarrow> fnum" where
  "fadd (Fin a) (Fin b) = Fin (a + b)"
| "fadd NaN _ = NaN"
| "fadd _ NaN = NaN"
| "fadd PInf NInf = NaN"
| "fadd NInf PInf = NaN"
| "fadd PInf _ = PInf"
| "fadd _ PInf = PInf"
| "fadd NInf _ = NInf"
| "fadd _ NInf = NInf"

definition fsub :: "fnum \<Rightarrow> fnum \<Rightarrow> fnum" where
  "fsub a b = fadd a (fneg b)"

fun fmul :: "fnum \<Rightarrow> fnum \<Rightarrow> fnum" where
  "fmul (Fin a) (Fin b) = Fin (a * b)"
| "fmul NaN _ = NaN"
| "fmul _ NaN = NaN"
| "fmul (Fin a) PInf = (if a = 0 then NaN else if 0 < a then PInf else NInf)"
| "fmul (Fin a) NInf = (if a = 0 then NaN else if 0 < a then NInf else PInf)"
| "fmul PInf (Fin b) = (if b = 0 then NaN else if 0 < b then PInf else NInf)"
| "fmul NInf (Fin b) = (if b = 0 then NaN else if 0 < b then NInf else PInf)"
| "fmul PInf PInf = PInf"
| "fmul PInf NInf = NInf"
| "fmul NInf PInf = NInf"
| "fmul NInf NInf = PInf"

fun fdiv :: "fnum \<Rightarrow> fnum \<Rightarrow> fnum" where
  "fdiv (Fin a) (Fin b) =
     (if b = 0 then (if a = 0 then NaN else if 0 < a then PInf else NInf)
      else Fin (a / b))"
| "fdiv NaN _ = NaN"
| "fdiv _ NaN = NaN"
| "fdiv (Fin a) PInf = Fin 0"
| "fdiv (Fin a) NInf = Fin 0"
| "fdiv PInf (Fin b) = (if 0 \<le> b then PInf else NInf)"
| "fdiv NInf (Fin b) = (if 0 \<le> b then NInf else PInf)"
| "fdiv PInf PInf = NaN"
| "fdiv PInf NInf = NaN"
| "fdiv NInf PInf = NaN"
| "fdiv NInf NInf = NaN"

text \<open>\<^verbatim>\<open>np.sqrt\<close>: the square root of a negative number is \<open>NaN\<close>, with a warning.\<close>

fun fsqrt :: "fnum \<Rightarrow> fnum" where
  "fsqrt (Fin a) = (if a < 0 then NaN else Fin (sqrt a))"
| "fsqrt PInf = PInf"
| "fsqrt NInf = NaN"
| "fsqrt NaN = NaN"

text \<open>\<^verbatim>\<open>np.sum\<close> of a vector (0 for the empty one) and the inner product of two vectors
  of one length.\<close>

primrec fsum :: "fnum list \<Rightarrow> fnum" where
  "fsum [] = Fin 0"
| "fsum (a # as) = fadd a (fsum as)"

definition inner :: "fnum list \<Rightarrow> fnum list \<Rightarrow> fnum" where
  "inner xs ys = fsum (map2 fmul xs ys)"

section \<open>Errors\<close>

text \<open>
  The exceptions the modelled calls can raise: numpy's \<^verbatim>\<open>ValueError\<close> when the shapes
  of the operands of \<^verbatim>\<open>np.dot\<close> or of an elementwise operation do not agree, and
  \<^verbatim>\<open>IndexError\<close> for an index past the end of an array; pandas' error for a cast of
  a non-finite value to an integer is a \<^verbatim>\<open>ValueError\<close> too. The source defines no
  exception class of its own and has no \<^verbatim>\<open>raise\<close> in the functions modelled here.
\<close>

datatype error = ValueError | IndexError

definition np_dot :: "fnum list \<Rightarrow> fnum list \<Rightarrow> error + fnum" where
  "np_dot xs ys = (if length xs \<noteq> length ys then Inl ValueError else Inr (inner xs ys))"

text \<open>
  \<^verbatim>\<open>.astype(int)\<close> on a pandas Series of floats: when some value is not finite (an
  infinity or \<open>NaN\<close>) pandas raises \<^verbatim>\<open>IntCastingNaNError\<close>, a \<^verbatim>\<open>ValueError\<close>
  (``Cannot convert non-finite values (NA or inf) to integer''); otherwise every value
  is truncated toward zero. The 64-bit range of the target type is not modelled.
\<close>

fun astype_int :: "fnum list \<Rightarrow> error + int list" where
  "astype_int [] = Inr []"
| "astype_int (Fin a # xs) =
     (case astype_int xs of
        Inl e \<Rightarrow> Inl e
      | Inr ns \<Rightarrow> Inr ((if 0 \<le> a then \<lfloor>a\<rfloor> else \<lceil>a\<rceil>) # ns))"
| "astype_int (_ # xs) = Inl ValueError"

section \<open>Return statistics (lines 69-71 of \<^verbatim>\<open>optimize_portfolio\<close>)\<close>

text \<open>
  The price matrix \<^verbatim>\<open>adj_close\<close>: one column per ticker, one row per date. Its
  entries are finite prices (the data collaborator's matrix holds no missing value),
  so the forward fill that some pandas versions apply inside \<^verbatim>\<open>pct_change\<close> changes
  nothing and is left out.
\<close>

record dataframe =
  columns :: "string list"
  rows :: "real list list"

text \<open>\<^verbatim>\<open>shift(1)\<close>: every row moves down by one, the first row becomes all \<open>NaN\<close>.\<close>

definition shift1 :: "nat \<Rightarrow> fnum list list \<Rightarrow> fnum list list" where
  "shift1 m rs = (if rs = [] then [] else replicate m NaN # butlast rs)"

text \<open>\<^verbatim>\<open>pct_change\<close> is \<^verbatim>\<open>data / data.shift(1) - 1\<close>, elementwise.\<close>

definition pct_change :: "nat \<Rightarrow> fnum list list \<Rightarrow> fnum list list" where
  "pct_change m rs =
     map2 (\<lambda>r s. map2 (\<lambda>c p. fsub (fdiv c p) (Fin 1)) r s) rs (shift1 m rs)"

text \<open>\<^verbatim>\<open>dropna()\<close> removes every row that holds a \<open>NaN\<close> (infinities stay).\<close>

definition dropna :: "fnum list list \<Rightarrow> fnum list list" where
  "dropna rs = filter (\<lambda>r. NaN \<notin> set r) rs"

definition column :: "nat \<Rightarrow> 'a list list \<Rightarrow> 'a list" where
  "column j rs = map (\<lambda>r. r ! j) rs"

text \<open>\<^verbatim>\<open>returns.mean()\<close>: per column, the sum over the count; \<open>NaN\<close> for no rows.\<close>

definition mean :: "fnum list \<Rightarrow> fnum" where
  "mean xs = (if length xs = 0 then NaN else fdiv (fsum xs) (Fin (real (length xs))))"

text \<open>
  \<^verbatim>\<open>returns.cov()\<close>: on a frame without \<open>NaN\<close> pandas calls \<^verbatim>\<open>np.cov(mat.T, ddof=1)\<close>,
  which subtracts each column's average, takes the inner products of the centred
  columns and multiplies them by \<^verbatim>\<open>1 / fact\<close>, where \<^verbatim>\<open>fact\<close> is the number of rows
  minus one, replaced by 0 (with a warning) when that is not positive.
\<close>

definition centred :: "fnum list \<Rightarrow> fnum list" where
  "centred xs = map (\<lambda>x. fsub x (fdiv (fsum xs) (Fin (real (length xs))))) xs"

definition cov_fact :: "nat \<Rightarrow> fnum" where
  "cov_fact n = (if int n - 1 \<le> 0 then Fin 0 else Fin (real n - 1))"

definition cov :: "nat \<Rightarrow> fnum list list \<Rightarrow> fnum list list" where
  "cov m rs =
     map (\<lambda>i. map (\<lambda>j.
            fmul (inner (centred (column i rs)) (centred (column j rs)))
                 (fdiv (Fin 1) (cov_fact (length rs))))
          [0..<m]) [0..<m]"

text \<open>
  Lines 69-71. None of the three pandas calls raises on a frame of numbers, and the
  source checks nothing: the result is always on the \<open>Inr\<close> side. \<^verbatim>\<open>num_assets\<close> is
  \<^verbatim>\<open>len(adj_close.columns)\<close>, which is also the number of columns of the derived frames.
\<close>

definition return_statistics ::
    "dataframe \<Rightarrow> error + (fnum list list \<times> fnum list \<times> fnum list list)" where
  "return_statistics adj_close =
     (let num_assets = length (columns adj_close);
          returns = dropna (pct_change num_assets (map (map Fin) (rows adj_close)));
          mean_returns = map (\<lambda>j. mean (column j returns)) [0..<num_assets];
          cov_matrix = cov num_assets returns
      in Inr (returns, mean_returns, cov_matrix))"

section \<open>The optimization engine (\<^verbatim>\<open>optimize_portfolio\<close>)\<close>

text \<open>
  \<^verbatim>\<open>scipy.optimize.minimize\<close> is a library routine. It is a parameter of the model:
  a function from the objective, the initial guess, the bounds and the equality
  constraint to either an exception or an \<^verbatim>\<open>OptimizeResult\<close>, of which the program reads
  the field \<^verbatim>\<open>x\<close> only; \<^verbatim>\<open>success\<close> is the solver's convergence flag.
\<close>

record optimize_result =
  res_x :: "fnum list"
  res_success :: bool

type_synonym minimizer =
  "(fnum list \<Rightarrow> error + fnum) \<Rightarrow> fnum list \<Rightarrow> (fnum \<times> fnum) list \<Rightarrow> (fnum list \<Rightarrow> fnum)
     \<Rightarrow> error + optimize_result"

definition negative_return :: "fnum list \<Rightarrow> fnum list \<Rightarrow> error + fnum" where
  "negative_return mean_returns weights =
     (case np_dot weights mean_returns of Inl e \<Rightarrow> Inl e | Inr d \<Rightarrow> Inr (fneg d))"

definition bounds :: "nat \<Rightarrow> (fnum \<times> fnum) list" where
  "bounds num_assets = replicate num_assets (Fin 0, Fin 1)"

definition constraints :: "fnum list \<Rightarrow> fnum" where
  "constraints w = fsub (fsum w) (Fin 1)"

definition initial_guess :: "nat \<Rightarrow> fnum list" where
  "initial_guess num_assets =
     map (\<lambda>one. fdiv one (Fin (real num_assets))) (replicate num_assets (Fin 1))"

definition optimize_portfolio ::
    "minimizer \<Rightarrow> dataframe \<Rightarrow> error + (fnum list \<times> fnum list \<times> fnum list list)" where
  "optimize_portfolio minimize adj_close =
     (case return_statistics adj_close of
        Inl e \<Rightarrow> Inl e
      | Inr (returns, mean_returns, cov_matrix) \<Rightarrow>
          (let num_assets = length (columns adj_close)
           in case minimize (negative_return mean_returns) (initial_guess num_assets)
                     (bounds num_assets) constraints of
                Inl e \<Rightarrow> Inl e
              | Inr result \<Rightarrow> Inr (res_x result, mean_returns, cov_matrix)))"

section \<open>Metrics and allocation plan (\<^verbatim>\<open>print_allocation\<close>)\<close>

text \<open>
  \<^verbatim>\<open>print_allocation\<close> prints what it computes and returns nothing. The model returns
  the computed values on normal completion and the exception otherwise; the
  formatting of the printed lines is not modelled. Its body is two computations that
  share only the weights and the tickers: the metrics (lines 87-100) and the
  investment plan (lines 102-107). Each is a definition of its own, and
  \<^verbatim>\<open>print_allocation\<close> runs one after the other.
\<close>

record metrics =
  port_return :: fnum
  port_volatility :: fnum
  annual_return :: fnum
  annual_volatility :: fnum

record plan =
  allocation_amount :: "fnum list"
  num_shares :: "int list"

text \<open>\<^verbatim>\<open>np.dot(cov_matrix, optimal_weights)\<close>: every row of the matrix must have the
  vector's length.\<close>

definition mat_vec :: "fnum list list \<Rightarrow> fnum list \<Rightarrow> error + fnum list" where
  "mat_vec m v =
     (if list_all (\<lambda>r. length r = length v) m then Inr (map (\<lambda>r. inner r v) m)
      else Inl ValueError)"

text \<open>
  Lines 87-100. The loop of lines 91-92 reads \<^verbatim>\<open>optimal_weights[i]\<close> for every ticker,
  which raises when there are more tickers than weights.
\<close>

definition portfolio_metrics ::
    "fnum list \<Rightarrow> string list \<Rightarrow> fnum list \<Rightarrow> fnum list list \<Rightarrow> error + metrics" where
  "portfolio_metrics optimal_weights tickers mean_returns cov_matrix =
     (case np_dot optimal_weights mean_returns of
        Inl e \<Rightarrow> Inl e
      | Inr pr \<Rightarrow>
     (case mat_vec cov_matrix optimal_weights of
        Inl e \<Rightarrow> Inl e
      | Inr cw \<Rightarrow>
     (case np_dot optimal_weights cw of
        Inl e \<Rightarrow> Inl e
      | Inr q \<Rightarrow>
        if length optimal_weights < length tickers then Inl IndexError
        else Inr \<lparr> port_return = pr,
                   port_volatility = fsqrt q,
                   annual_return = fmul pr (Fin 252),
                   annual_volatility = fmul (fsqrt q) (fsqrt (Fin 252)) \<rparr>)))"

text \<open>
  Lines 102-107. \<^verbatim>\<open>latest_prices\<close> is a pandas Series (line 107 reads it with
  \<^verbatim>\<open>.iloc\<close>), so the quotient of line 103 is a Series and the cast is pandas' cast.
  The loop of lines 106-107 reads the amounts, share counts and prices at the
  position of every ticker (an integer key on the Series \<^verbatim>\<open>num_shares\<close> is read as a
  position, as pandas 1 and 2 do).
\<close>

definition allocation_plan ::
    "fnum list \<Rightarrow> string list \<Rightarrow> int \<Rightarrow> fnum list \<Rightarrow> error + plan" where
  "allocation_plan optimal_weights tickers investment_limit latest_prices =
     (let amount = map (\<lambda>w. fmul w (Fin (of_int investment_limit))) optimal_weights in
      if length amount \<noteq> length latest_prices then Inl ValueError
      else
        (case astype_int (map2 fdiv amount latest_prices) of
           Inl e \<Rightarrow> Inl e
         | Inr shares \<Rightarrow>
             if length amount < length tickers then Inl IndexError
             else Inr \<lparr> allocation_amount = amount, num_shares = shares \<rparr>))"

definition print_allocation ::
    "fnum list \<Rightarrow> string list \<Rightarrow> fnum list \<Rightarrow> fnum list list \<Rightarrow> int \<Rightarrow> fnum list
       \<Rightarrow> error + (metrics \<times> plan)" where
  "print_allocation optimal_weights tickers mean_returns cov_matrix investment_limit
       latest_prices =
     (case portfolio_metrics optimal_weights tickers mean_returns cov_matrix of
        Inl e \<Rightarrow> Inl e
      | Inr m \<Rightarrow>
          (case allocation_plan optimal_weights tickers investment_limit latest_prices of
             Inl e \<Rightarrow> Inl e
           | Inr p \<Rightarrow> Inr (m, p)))"

section \<open>Definitions for the statements\<close>

text \<open>
  A frame is rectangular: every row has one entry per column. The list model also
  has ragged values, which no pandas frame is; theorems about all frames assume
  \<open>wf_frame\<close>.
\<close>

definition wf_frame :: "dataframe \<Rightarrow> bool" where
  "wf_frame df \<longleftrightarrow> list_all (\<lambda>r. length r = length (columns df)) (rows df)"

text \<open>
  One possible run of the solver, used to evaluate the engine on concrete inputs: it
  stops at the initial guess and reports that it did not converge (\<^verbatim>\<open>success\<close> is
  \<^verbatim>\<open>False\<close>), as scipy does when a run ends with the exit mode of an exhausted
  iteration limit or of a failed line search.
\<close>

definition stalled_minimize :: minimizer where
  "stalled_minimize fun x0 bnds cons = Inr \<lparr> res_x = x0, res_success = False \<rparr>"

text \<open>
  The formulas of the specification, over the reals: the dot product \<open>w \<cdot> m\<close> and the
  quadratic form \<open>w\<^sup>t \<cdot> Cov \<cdot> w\<close>. The theorems compare what \<^verbatim>\<open>print_allocation\<close>
  computes with them.
\<close>

definition dot :: "real list \<Rightarrow> real list \<Rightarrow> real" where
  "dot xs ys = sum_list (map2 (*) xs ys)"



section \<open>Finite vectors\<close>

lemma fsum_map_Fin: "fsum (map Fin xs) = Fin (sum_list xs)"
  by (induction xs) simp_all

lemma map2_fmul_Fin: "map2 fmul (map Fin xs) (map Fin ys) = map Fin (map2 (*) xs ys)"
  by (induction xs arbitrary: ys) (auto simp: zip_Cons1 split: list.splits)

lemma inner_Fin: "inner (map Fin xs) (map Fin ys) = Fin (sum_list (map2 (*) xs ys))"
  by (simp only: inner_def map2_fmul_Fin fsum_map_Fin)


section \<open>Properties of the allocation plan\<close>

lemma print_allocation_runs_both:
  "print_allocation w t m c B p = Inr (mt, pl) \<longleftrightarrow>
     portfolio_metrics w t m c = Inr mt \<and> allocation_plan w t B p = Inr pl"
  by (auto simp: print_allocation_def split: sum.splits)

















section \<open>Properties of the metrics\<close>





section \<open>Properties of the return statistics\<close>

lemma column_replicate: "j < m \<Longrightarrow> column j (replicate k (replicate m x)) = replicate k x"
  by (simp add: column_def)

lemma fsum_replicate_zero: "fsum (replicate k (Fin 0)) = Fin 0"
  by (induction k) simp_all

lemma mean_zero: "0 < k \<Longrightarrow> mean (replicate k (Fin 0)) = Fin 0"
  by (simp add: mean_def fsum_replicate_zero)

lemma centred_zero: "centred (replicate k (Fin 0)) = replicate k (Fin 0)"
  by (cases "k = 0") (simp_all add: centred_def fsum_replicate_zero fsub_def)

lemma inner_zero: "inner (replicate k (Fin 0)) (replicate k (Fin 0)) = Fin 0"
proof -
  have "map2 fmul (replicate k (Fin 0)) (replicate k (Fin 0)) = replicate k (Fin 0)"
    by (simp add: zip_replicate)
  then show ?thesis by (simp add: inner_def fsum_replicate_zero)
qed

lemma cov_fact_ge2: "2 \<le> k \<Longrightarrow> fdiv (Fin 1) (cov_fact k) = Fin (1 / (real k - 1))"
  by (simp add: cov_fact_def)

lemma map_upt_const: "(\<And>j. j < m \<Longrightarrow> f j = c) \<Longrightarrow> map f [0..<m] = replicate m c"
  by (simp add: list_eq_iff_nth_eq)

lemma cov_zero:
  assumes "2 \<le> k"
  shows "cov m (replicate k (replicate m (Fin 0))) = replicate m (replicate m (Fin 0))"
  unfolding cov_def
  by (intro map_upt_const)
     (simp add: column_replicate centred_zero inner_zero cov_fact_ge2 [OF assms])

lemma mean_columns_zero:
  assumes "0 < k"
  shows "map (\<lambda>j. mean (column j (replicate k (replicate m (Fin 0))))) [0..<m] = replicate m (Fin 0)"
  by (intro map_upt_const) (simp add: column_replicate mean_zero [OF assms])

lemma pct_row_same:
  assumes "\<forall>x\<in>set p. x \<noteq> 0"
  shows "map2 (\<lambda>c p. fsub (fdiv c p) (Fin 1)) (map Fin p) (map Fin p) = replicate (length p) (Fin 0)"
  using assms by (induction p) (simp_all add: fsub_def)

lemma pct_row_first:
  "map2 (\<lambda>c p. fsub (fdiv c p) (Fin 1)) (map Fin p) (replicate (length p) NaN) = replicate (length p) NaN"
  by (induction p) (simp_all add: fsub_def)

lemma butlast_replicate_Suc: "butlast (replicate (Suc k) x) = replicate k x"
  by (induction k) simp_all

lemma pct_change_const:
  assumes "\<forall>x\<in>set p. x \<noteq> 0" "0 < n"
  shows "pct_change (length p) (replicate n (map Fin p))
       = replicate (length p) NaN # replicate (n - 1) (replicate (length p) (Fin 0))"
proof -
  from assms(2) obtain k where n: "n = Suc k" by (cases n) auto
  let ?r = "map Fin p"
  have sh: "shift1 (length p) (replicate (Suc k) ?r) = replicate (length p) NaN # replicate k ?r"
    unfolding shift1_def butlast_replicate_Suc by simp
  have z: "zip (replicate (Suc k) ?r) (replicate (length p) NaN # replicate k ?r)
         = (?r, replicate (length p) NaN) # replicate k (?r, ?r)"
    by (simp add: zip_replicate)
  show ?thesis
    unfolding n pct_change_def sh z
    by (simp add: pct_row_first pct_row_same [OF assms(1)])
qed

lemma dropna_const:
  assumes "0 < m"
  shows "dropna (replicate m NaN # replicate k (replicate m (Fin 0))) = replicate k (replicate m (Fin 0))"
  using assms by (simp add: dropna_def)

lemma cov_one_row:
  "cov m (replicate (Suc 0) (replicate m (Fin 0))) = replicate m (replicate m NaN)"
  unfolding cov_def
  by (intro map_upt_const) (simp add: column_def centred_def inner_def cov_fact_def fsub_def)

text \<open>
  Claim C9, as the code behaves. For a price matrix whose rows are all the same row
  of non-zero prices (at least one asset, at least two dates) every mean return is
  0. Every covariance is 0 when there are at least three dates; with exactly two
  dates there is one return per asset and every covariance is \<open>NaN\<close>.
\<close>

theorem constant_prices_statistics:
  assumes len: "length p = length cs" and cols: "cs \<noteq> []"
    and nz: "\<forall>x\<in>set p. x \<noteq> 0" and n: "2 \<le> n"
  shows "return_statistics \<lparr> columns = cs, rows = replicate n p \<rparr>
       = Inr (replicate (n - 1) (replicate (length cs) (Fin 0)),
              replicate (length cs) (Fin 0),
              replicate (length cs) (replicate (length cs) (if n = 2 then NaN else Fin 0)))"
proof -
  from n have pos: "0 < n" and k1: "0 < n - 1" by simp_all
  from cols have m: "0 < length cs" by simp
  have r: "dropna (pct_change (length cs) (replicate n (map Fin p)))
         = replicate (n - 1) (replicate (length cs) (Fin 0))"
    using pct_change_const [OF nz pos] dropna_const [OF m, of "n - 1"] len by simp
  have c: "cov (length cs) (replicate (n - 1) (replicate (length cs) (Fin 0)))
         = replicate (length cs) (replicate (length cs) (if n = 2 then NaN else Fin 0))"
  proof (cases "n = 2")
    case True
    then show ?thesis using cov_one_row [of "length cs"] by simp
  next
    case False
    with n have "2 \<le> n - 1" by simp
    from cov_zero [OF this, of "length cs"] False show ?thesis by simp
  qed
  show ?thesis
    unfolding return_statistics_def Let_def
    using r mean_columns_zero [OF k1, of "length cs"] c
    by simp
qed

theorem constant_prices_statistics_witness:
  "length [100, 5 :: real] = length [''A'', ''B''] \<and> [''A'', ''B''] \<noteq> []
   \<and> (100::real) \<noteq> 0 \<and> (5::real) \<noteq> 0 \<and> (2::nat) \<le> 3
   \<and> return_statistics \<lparr> columns = [''A'', ''B''], rows = [[100, 5], [100, 5], [100, 5]] \<rparr>
       = Inr ([[Fin 0, Fin 0], [Fin 0, Fin 0]], [Fin 0, Fin 0], [[Fin 0, Fin 0], [Fin 0, Fin 0]])"
proof -
  have l: "length [100, 5 :: real] = length [''A'', ''B'']" by simp
  have c: "[''A'', ''B''] \<noteq> []" by simp
  have z: "\<forall>x\<in>set [100, 5 :: real]. x \<noteq> 0" by simp
  have n: "(2::nat) \<le> 3" by simp
  from constant_prices_statistics [OF l c z n] show ?thesis
    by (simp add: numeral_3_eq_3 numeral_2_eq_2)
qed

text \<open>
  Claim C9 as the specification states it fails for two dates: the means are 0, the
  covariance matrix is all \<open>NaN\<close>, not all 0.
\<close>

theorem constant_prices_two_dates:
  "return_statistics \<lparr> columns = [''A'', ''B''], rows = [[100, 5], [100, 5]] \<rparr>
     = Inr ([[Fin 0, Fin 0]], [Fin 0, Fin 0], [[NaN, NaN], [NaN, NaN]])"
  by (simp add: return_statistics_def dropna_def pct_change_def shift1_def mean_def cov_def
      column_def centred_def cov_fact_def inner_def fsub_def)




lemma cov_no_rows: "cov m [] = replicate m (replicate m NaN)"
  unfolding cov_def
  by (intro map_upt_const) (simp add: column_def centred_def inner_def cov_fact_def)

lemma mean_no_rows: "map (\<lambda>j. mean (column j [])) [0..<m] = replicate m NaN"
  by (intro map_upt_const) (simp add: column_def mean_def)

lemma fdiv_NaN_right: "fdiv a NaN = NaN"
  by (cases a) simp_all

lemma pct_row_NaN:
  "length r = m \<Longrightarrow> map2 (\<lambda>c p. fsub (fdiv c p) (Fin 1)) r (replicate m NaN) = replicate m NaN"
  by (induction r arbitrary: m) (auto simp: fsub_def fdiv_NaN_right)

lemma few_rows_no_returns:
  assumes "wf_frame df" "length (rows df) < 2" "columns df \<noteq> []"
  shows "dropna (pct_change (length (columns df)) (map (map Fin) (rows df))) = []"
proof (cases "rows df")
  case Nil
  then show ?thesis by (simp add: pct_change_def shift1_def dropna_def)
next
  case (Cons r rs)
  with assms(2) have rs: "rs = []" by simp
  from assms(1) Cons have "length (map Fin r) = length (columns df)" by (simp add: wf_frame_def)
  from pct_row_NaN [OF this] assms(3) show ?thesis
    by (simp add: Cons rs pct_change_def shift1_def dropna_def)
qed

text \<open>
  Claim C4, as the code behaves. The return statistics never fail: for every
  rectangular price matrix they return a result. With fewer than two dates (and at
  least one asset) the cleaned return series is empty, and whenever the cleaned
  return series is empty every mean and every covariance is \<open>NaN\<close>.
\<close>

theorem statistics_never_fail:
  assumes wf: "wf_frame df"
  shows "\<exists>returns m c. return_statistics df = Inr (returns, m, c)
           \<and> (length (rows df) < 2 \<and> columns df \<noteq> [] \<longrightarrow> returns = [])
           \<and> (returns = [] \<longrightarrow>
                m = replicate (length (columns df)) NaN
              \<and> c = replicate (length (columns df)) (replicate (length (columns df)) NaN))"
  unfolding return_statistics_def Let_def
  using few_rows_no_returns [OF wf]
  by (auto simp: cov_no_rows mean_no_rows)

theorem statistics_never_fail_witness:
  "wf_frame \<lparr> columns = [''A''], rows = [[100]] \<rparr>
   \<and> return_statistics \<lparr> columns = [''A''], rows = [[100]] \<rparr> = Inr ([], [NaN], [[NaN]])"
proof -
  have w: "wf_frame \<lparr> columns = [''A''], rows = [[100]] \<rparr>"
    by (simp add: wf_frame_def)
  from statistics_never_fail [OF w] w show ?thesis by auto
qed

text \<open>
  Claim C4 as the specification states it fails for a price matrix with a single
  date: no error is raised, the statistics are returned with \<open>NaN\<close> entries.
\<close>

theorem single_date_statistics:
  "return_statistics \<lparr> columns = [''A'', ''B''], rows = [[100, 5]] \<rparr>
     = Inr ([], [NaN, NaN], [[NaN, NaN], [NaN, NaN]])"
  by (simp add: return_statistics_def dropna_def pct_change_def shift1_def mean_def cov_def
      column_def centred_def cov_fact_def inner_def fsub_def)

section \<open>Properties of the optimization engine\<close>

lemma stats_three_dates:
  "return_statistics \<lparr> columns = [''A'', ''B''], rows = [[100, 5], [110, 4], [121, 5]] \<rparr>
     = Inr ([[Fin (1/10), Fin (- (1/5))], [Fin (1/10), Fin (1/4)]],
            [Fin (1/10), Fin (1/40)],
            [[Fin 0, Fin 0], [Fin 0, Fin (81/800)]])"
  by (simp add: return_statistics_def dropna_def pct_change_def shift1_def mean_def cov_def
      column_def centred_def cov_fact_def inner_def fsub_def)

lemma stats_flat:
  "return_statistics \<lparr> columns = [''A''], rows = [[10], [10], [10]] \<rparr>
     = Inr ([[Fin 0], [Fin 0]], [Fin 0], [[Fin 0]])"
  by (simp add: return_statistics_def dropna_def pct_change_def shift1_def mean_def cov_def
      column_def centred_def cov_fact_def inner_def fsub_def)

text \<open>
  Claim C3, as the code behaves. The engine does not read the solver's convergence
  flag: whenever the call of the solver returns a result, converged or not, the
  engine returns that result's \<^verbatim>\<open>x\<close> with the statistics; it fails only when the call
  of the solver itself raises, and then with that exception.
\<close>

theorem engine_returns_final_iterate:
  assumes "return_statistics adj_close = Inr (returns, mean_returns, cov_matrix)"
  shows "(\<forall>result. minimize (negative_return mean_returns)
                      (initial_guess (length (columns adj_close)))
                      (bounds (length (columns adj_close))) constraints = Inr result
            \<longrightarrow> optimize_portfolio minimize adj_close
                  = Inr (res_x result, mean_returns, cov_matrix))
       \<and> (\<forall>e. minimize (negative_return mean_returns)
                      (initial_guess (length (columns adj_close)))
                      (bounds (length (columns adj_close))) constraints = Inl e
            \<longrightarrow> optimize_portfolio minimize adj_close = Inl e)"
  using assms by (simp add: optimize_portfolio_def Let_def)

theorem engine_returns_final_iterate_witness:
  "return_statistics \<lparr> columns = [''A''], rows = [[10], [10], [10]] \<rparr>
     = Inr ([[Fin 0], [Fin 0]], [Fin 0], [[Fin 0]])
   \<and> stalled_minimize (negative_return [Fin 0]) (initial_guess 1) (bounds 1) constraints
       = Inr \<lparr> res_x = [Fin 1], res_success = False \<rparr>
   \<and> optimize_portfolio stalled_minimize \<lparr> columns = [''A''], rows = [[10], [10], [10]] \<rparr>
       = Inr ([Fin 1], [Fin 0], [[Fin 0]])"
proof -
  have m: "stalled_minimize (negative_return [Fin 0]) (initial_guess 1) (bounds 1) constraints
       = Inr \<lparr> res_x = [Fin 1], res_success = False \<rparr>"
    by (simp add: stalled_minimize_def initial_guess_def)
  from engine_returns_final_iterate [OF stats_flat, of stalled_minimize] m
  have "optimize_portfolio stalled_minimize \<lparr> columns = [''A''], rows = [[10], [10], [10]] \<rparr>
       = Inr ([Fin 1], [Fin 0], [[Fin 0]])"
    by simp
  with stats_flat m show ?thesis by simp
qed

text \<open>
  Claim C3 as the specification states it fails for a run of the solver that does not
  converge: the engine returns the weights of that run.
\<close>

theorem unconverged_weights_returned:
  "stalled_minimize (negative_return [Fin (1/10), Fin (1/40)]) (initial_guess 2) (bounds 2)
       constraints = Inr \<lparr> res_x = [Fin (1/2), Fin (1/2)], res_success = False \<rparr>
   \<and> optimize_portfolio stalled_minimize
       \<lparr> columns = [''A'', ''B''], rows = [[100, 5], [110, 4], [121, 5]] \<rparr>
     = Inr ([Fin (1/2), Fin (1/2)], [Fin (1/10), Fin (1/40)],
            [[Fin 0, Fin 0], [Fin 0, Fin (81/800)]])"
  by (simp add: optimize_portfolio_def stats_three_dates stalled_minimize_def initial_guess_def
      numeral_2_eq_2)

section \<open>The problem posed to the solver\<close>

text \<open>
  The objective \<^verbatim>\<open>negative_return\<close> on finite vectors, and the exact optimum of the
  problem that \<^verbatim>\<open>optimize_portfolio\<close> hands to the solver: when one mean return is
  strictly larger than all others, every vector of non-negative weights with sum 1
  has a return of at most that mean, and only the vector with weight 1 on that asset
  reaches it. What the solver returns for this problem in floating point is outside
  this model.
\<close>

lemma dot_sum_nth:
  assumes "length ws = length ms"
  shows "dot ws ms = (\<Sum>i<length ms. ws ! i * ms ! i)"
proof -
  have "dot ws ms = (\<Sum>i = 0..<length (zip ws ms). map2 (*) ws ms ! i)"
    unfolding dot_def by (simp add: sum_list_sum_nth)
  also have "\<dots> = (\<Sum>i<length ms. ws ! i * ms ! i)"
    using assms by (simp add: atLeast0LessThan)
  finally show ?thesis .
qed

lemma negative_return_Fin:
  "length ws = length ms \<Longrightarrow>
     negative_return (map Fin ms) (map Fin ws) = Inr (Fin (- dot ws ms))"
  by (simp add: negative_return_def np_dot_def inner_Fin dot_def)

lemma corner_is_optimum:
  assumes len: "length ws = length ms" and k: "k < length ms"
    and dom: "\<forall>j<length ms. j \<noteq> k \<longrightarrow> ms ! j < ms ! k"
    and nonneg: "\<forall>w\<in>set ws. 0 \<le> w" and total: "sum_list ws = 1"
  shows "dot ws ms \<le> ms ! k"
    and "dot ws ms = ms ! k \<longleftrightarrow> ws = (replicate (length ms) 0)[k := 1]"
proof -
  let ?n = "length ms"
  have w0: "0 \<le> ws ! i" if "i < ?n" for i using that nonneg len by simp
  have tot: "(\<Sum>i<?n. ws ! i) = 1"
    using total len by (simp add: sum_list_sum_nth atLeast0LessThan)
  have gap: "ms ! k - dot ws ms = (\<Sum>i<?n. ws ! i * (ms ! k - ms ! i))"
  proof -
    have "(\<Sum>i<?n. ws ! i * (ms ! k - ms ! i)) = (\<Sum>i<?n. ws ! i) * ms ! k - (\<Sum>i<?n. ws ! i * ms ! i)"
      by (simp add: right_diff_distrib sum_subtractf sum_distrib_right)
    then show ?thesis using tot dot_sum_nth [OF len] by simp
  qed
  have tm: "0 \<le> ws ! i * (ms ! k - ms ! i)" if "i < ?n" for i
  proof (cases "i = k")
    case True then show ?thesis by simp
  next
    case False
    with dom that have "ms ! i < ms ! k" by simp
    with w0 [OF that] show ?thesis by simp
  qed
  have "0 \<le> (\<Sum>i<?n. ws ! i * (ms ! k - ms ! i))" by (intro sum_nonneg) (simp add: tm)
  with gap show le: "dot ws ms \<le> ms ! k" by simp
  show "dot ws ms = ms ! k \<longleftrightarrow> ws = (replicate ?n 0)[k := 1]"
  proof
    assume "dot ws ms = ms ! k"
    with gap have "(\<Sum>i<?n. ws ! i * (ms ! k - ms ! i)) = 0" by simp
    then have z: "\<forall>i\<in>{..<?n}. ws ! i * (ms ! k - ms ! i) = 0"
      using tm by (subst (asm) sum_nonneg_eq_0_iff) auto
    have off: "ws ! i = 0" if "i < ?n" "i \<noteq> k" for i
    proof -
      from dom that have "ms ! i < ms ! k" by blast
      then have "ms ! k - ms ! i \<noteq> 0" by simp
      with z that(1) show ?thesis by auto
    qed
    have "(\<Sum>i<?n. ws ! i) = (\<Sum>i\<in>{..<?n}. if i = k then ws ! k else 0)"
      by (intro sum.cong) (auto simp: off)
    also have "\<dots> = ws ! k" using k by simp
    finally have "ws ! k = 1" using tot by simp
    with off len k show "ws = (replicate ?n 0)[k := 1]"
      by (auto simp: list_eq_iff_nth_eq nth_list_update)
  next
    assume e: "ws = (replicate ?n 0)[k := 1]"
    have "(\<Sum>i<?n. ws ! i * ms ! i) = (\<Sum>i\<in>{..<?n}. if i = k then ms ! k else 0)"
      by (intro sum.cong) (auto simp: e nth_list_update)
    also have "\<dots> = ms ! k" using k by simp
    finally show "dot ws ms = ms ! k" using dot_sum_nth [OF len] by simp
  qed
qed

end
